theory Spec2Isabelle
  imports Complex_Main "HOL-Library.Sublist"
begin

section \<open>Errors, sparse rating matrices and dense arrays\<close>

text \<open>
  The Python exceptions the modelled functions can raise. A function that may raise
  returns \<open>error + 'a\<close>, with \<open>Inl\<close> for the exception.
  Floating-point numbers are modelled as real numbers throughout.
\<close>

datatype error = IndexError | ValueError | ZeroDivisionError | LinAlgError | UnboundLocalError
  | OverflowError | MemoryError | OSError

text \<open>
  A \<open>scipy.sparse.lil_matrix\<close>: its shape and its entries. An entry that is not
  stored reads as 0, and storing 0 removes the entry, so the stored entries are exactly
  the nonzero ones.
\<close>

record lil_matrix =
  shape0 :: nat
  shape1 :: nat
  entry :: "nat \<Rightarrow> nat \<Rightarrow> real"

text \<open>A two-dimensional \<open>numpy.ndarray\<close> of floats.\<close>

record ndarray =
  dim0 :: nat
  dim1 :: nat
  elem :: "nat \<Rightarrow> nat \<Rightarrow> real"

text \<open>\<open>A[:, c]\<close> on a dense array, and \<open>data[row, col]\<close> on a sparse matrix.\<close>

definition getcol :: "ndarray \<Rightarrow> nat \<Rightarrow> error + real list" where
  "getcol A c =
     (if c < dim1 A then Inr (map (\<lambda>f. elem A f c) [0..<dim0 A]) else Inl IndexError)"

definition getitem :: "lil_matrix \<Rightarrow> nat \<Rightarrow> nat \<Rightarrow> error + real" where
  "getitem A i j =
     (if i < shape0 A \<and> j < shape1 A then Inr (entry A i j) else Inl IndexError)"

text \<open>\<open>x.T.dot(y)\<close> on two one-dimensional arrays: the shapes must agree.\<close>

definition dot :: "real list \<Rightarrow> real list \<Rightarrow> error + real" where
  "dot xs ys =
     (if length xs = length ys then Inr (sum_list (map2 (*) xs ys)) else Inl ValueError)"

section \<open>compute\_error\<close>

text \<open>
  \<^verbatim>\<open>
  mse = 0
  for row,col in nz:
      movie = movie_features[:,col]
      user = user_features[:,row]
      mse += ((data[row,col] - movie.T.dot(user))**2)
  rmse = np.sqrt(1.0*mse/len(nz))
  \<close>
  With an empty \<open>nz\<close> the accumulator is still the Python integer 0, and
  \<open>1.0*0/0\<close> raises ZeroDivisionError.
\<close>

fun mse_loop :: "lil_matrix \<Rightarrow> ndarray \<Rightarrow> ndarray \<Rightarrow> (nat \<times> nat) list \<Rightarrow> real \<Rightarrow> error + real" where
  "mse_loop data movie_features user_features [] mse = Inr mse"
| "mse_loop data movie_features user_features ((row, col) # nz) mse =
     (case getcol movie_features col of Inl e \<Rightarrow> Inl e | Inr movie \<Rightarrow>
     (case getcol user_features row of Inl e \<Rightarrow> Inl e | Inr user \<Rightarrow>
     (case getitem data row col of Inl e \<Rightarrow> Inl e | Inr d \<Rightarrow>
     (case dot movie user of Inl e \<Rightarrow> Inl e | Inr p \<Rightarrow>
        mse_loop data movie_features user_features nz (mse + (d - p)\<^sup>2)))))"

definition compute_error :: "lil_matrix \<Rightarrow> ndarray \<Rightarrow> ndarray \<Rightarrow> (nat \<times> nat) list \<Rightarrow> error + real" where
  "compute_error data movie_features user_features nz =
     (case mse_loop data movie_features user_features nz 0 of
        Inl e \<Rightarrow> Inl e
      | Inr mse \<Rightarrow>
          if length nz = 0 then Inl ZeroDivisionError
          else Inr (sqrt (1 * mse / real (length nz))))"

text \<open>The pairs index the matrix and both factor arrays.\<close>

definition pairs_ok :: "lil_matrix \<Rightarrow> ndarray \<Rightarrow> ndarray \<Rightarrow> (nat \<times> nat) list \<Rightarrow> bool" where
  "pairs_ok data movie_features user_features nz =
     list_all (\<lambda>(row, col). row < shape0 data \<and> col < shape1 data \<and>
                 col < dim1 movie_features \<and> row < dim1 user_features) nz"

text \<open>The squared residual of one pair, written out over the features.\<close>

definition sq_residual :: "lil_matrix \<Rightarrow> ndarray \<Rightarrow> ndarray \<Rightarrow> nat \<times> nat \<Rightarrow> real" where
  "sq_residual data movie_features user_features p =
     (entry data (fst p) (snd p)
        - (\<Sum>f<dim0 movie_features. elem movie_features f (snd p) * elem user_features f (fst p)))\<^sup>2"

section \<open>preprocess\_data\<close>

text \<open>
  The machine index type (\<open>npy_intp\<close>, a signed 64-bit integer) and the Python
  integers it can hold.
\<close>

definition intp_max :: int where
  "intp_max = 2 ^ 63 - 1"

definition fits_intp :: "int \<Rightarrow> bool" where
  "fits_intp k \<longleftrightarrow> - intp_max - 1 \<le> k \<and> k \<le> intp_max"

text \<open>
  \<open>sp.lil_matrix((M, N))\<close> with Python integers. A negative dimension is refused. The
  constructor allocates two arrays of \<open>M\<close> pointers (8 bytes each): numpy refuses a
  size in bytes beyond the index type with ValueError, and the allocation fails with
  MemoryError beyond what the machine holds, which is the parameter \<open>alloc_rows\<close>.
  Nothing is allocated per column. The new matrix stores nothing.
\<close>

definition new_lil_matrix :: "nat \<Rightarrow> int \<Rightarrow> int \<Rightarrow> error + lil_matrix" where
  "new_lil_matrix alloc_rows M N =
     (if M < 0 \<or> N < 0 then Inl ValueError
      else if intp_max < 8 * M then Inl ValueError
      else if int alloc_rows < M then Inl MemoryError
      else Inr \<lparr>shape0 = nat M, shape1 = nat N, entry = \<lambda>i j. 0\<rparr>)"

text \<open>
  \<open>A[i, j] = x\<close> with Python integers. The shape and both indices are first converted
  to the machine index type, which raises OverflowError for an integer it cannot hold.
  Then an index outside \<open>[-M, M)\<close> raises IndexError, and an index in \<open>[-M, 0)\<close>
  counts from the end.
\<close>

definition setitem :: "lil_matrix \<Rightarrow> int \<Rightarrow> int \<Rightarrow> real \<Rightarrow> error + lil_matrix" where
  "setitem A i j x =
     (let M = int (shape0 A); N = int (shape1 A) in
      if \<not> (fits_intp M \<and> fits_intp N \<and> fits_intp i \<and> fits_intp j) then Inl OverflowError
      else if i < - M \<or> M \<le> i \<or> j < - N \<or> N \<le> j then Inl IndexError
      else
        let i' = nat (if i < 0 then i + M else i); j' = nat (if j < 0 then j + N else j)
        in Inr (A\<lparr>entry := (entry A)(i' := (entry A i')(j' := x))\<rparr>))"

text \<open>
  \<^verbatim>\<open>
  def statistics(data):
      row = set([line[0] for line in data])
      col = set([line[1] for line in data])
      return min(row), max(row), min(col), max(col)
  \<close>
  \<open>min\<close> of an empty set raises ValueError.
\<close>

definition statistics :: "(int \<times> int \<times> real) list \<Rightarrow> error + int \<times> int \<times> int \<times> int" where
  "statistics data =
     (let row = set (map fst data); col = set (map (fst \<circ> snd) data) in
      if data = [] then Inl ValueError
      else Inr (Min row, Max row, Min col, Max col))"

text \<open>\<open>[deal_line(line) for line in data]\<close>: the first line that fails to parse raises.\<close>

fun parse_lines :: "('l \<Rightarrow> error + int \<times> int \<times> real) \<Rightarrow> 'l list \<Rightarrow> error + (int \<times> int \<times> real) list" where
  "parse_lines deal_line [] = Inr []"
| "parse_lines deal_line (line # data) =
     (case deal_line line of Inl e \<Rightarrow> Inl e | Inr rec \<Rightarrow>
     (case parse_lines deal_line data of Inl e \<Rightarrow> Inl e | Inr recs \<Rightarrow> Inr (rec # recs)))"

text \<open>
  \<^verbatim>\<open>
  for row, col, rating in data:
      ratings[row - 1, col - 1] = rating
  \<close>
\<close>

fun insert_ratings :: "lil_matrix \<Rightarrow> (int \<times> int \<times> real) list \<Rightarrow> error + lil_matrix" where
  "insert_ratings ratings [] = Inr ratings"
| "insert_ratings ratings ((row, col, rating) # data) =
     (case setitem ratings (row - 1) (col - 1) rating of
        Inl e \<Rightarrow> Inl e
      | Inr ratings' \<Rightarrow> insert_ratings ratings' data)"

text \<open>
  \<open>preprocess_data\<close>, with the line parser \<open>deal_line\<close> as a parameter (it splits the
  text \<open>r<row>_c<col>,<rating>\<close> and converts the three fields), and the number of rows
  the machine can allocate.
\<close>

definition preprocess_data ::
  "nat \<Rightarrow> ('l \<Rightarrow> error + int \<times> int \<times> real) \<Rightarrow> 'l list \<Rightarrow> error + lil_matrix" where
  "preprocess_data alloc_rows deal_line lines =
     (case parse_lines deal_line lines of Inl e \<Rightarrow> Inl e | Inr data \<Rightarrow>
     (case statistics data of Inl e \<Rightarrow> Inl e | Inr (min_row, max_row, min_col, max_col) \<Rightarrow>
     (case new_lil_matrix alloc_rows max_row max_col of Inl e \<Rightarrow> Inl e | Inr ratings \<Rightarrow>
        insert_ratings ratings data)))"

text \<open>
  The bound on the indices of a record: \<open>ratings[row - 1, col - 1]\<close> is inside the
  matrix of shape \<open>(max_row, max_col)\<close> from \<open>1 - max_row\<close> and \<open>1 - max_col\<close> on.
\<close>

definition index_accepted :: "(int \<times> int \<times> real) list \<Rightarrow> int \<times> int \<times> real \<Rightarrow> bool" where
  "index_accepted data rec =
     (1 - Max (set (map fst data)) \<le> fst rec \<and>
      1 - Max (set (map (fst \<circ> snd) data)) \<le> fst (snd rec))"

text \<open>
  The cell that the Python index \<open>k\<close> addresses in a dimension of size \<open>M\<close> (a negative
  index counts from the end), and the rating that the last record addressing the cell
  \<open>(i, j)\<close> carries, 0 if no record addresses it.
\<close>

definition from_end :: "int \<Rightarrow> int \<Rightarrow> nat" where
  "from_end M k = nat (if k < 0 then k + M else k)"

definition addresses :: "int \<Rightarrow> int \<Rightarrow> nat \<Rightarrow> nat \<Rightarrow> int \<times> int \<times> real \<Rightarrow> bool" where
  "addresses M N i j rec \<longleftrightarrow> from_end M (fst rec - 1) = i \<and> from_end N (fst (snd rec) - 1) = j"

definition last_rating :: "int \<Rightarrow> int \<Rightarrow> (int \<times> int \<times> real) list \<Rightarrow> nat \<Rightarrow> nat \<Rightarrow> real" where
  "last_rating M N data i j =
     (case find (addresses M N i j) (rev data) of None \<Rightarrow> 0 | Some rec \<Rightarrow> snd (snd rec))"

text \<open>
  The matrix of shape \<open>(max_row, max_col)\<close> can be built on a machine that allocates
  \<open>alloc_rows\<close> rows, and a record is inside a matrix.
\<close>

definition shape_allocated :: "nat \<Rightarrow> (int \<times> int \<times> real) list \<Rightarrow> bool" where
  "shape_allocated alloc_rows data \<longleftrightarrow>
     0 \<le> Max (set (map fst data)) \<and> 8 * Max (set (map fst data)) \<le> intp_max \<and>
     Max (set (map fst data)) \<le> int alloc_rows \<and>
     0 \<le> Max (set (map (fst \<circ> snd) data)) \<and> Max (set (map (fst \<circ> snd) data)) \<le> intp_max"

definition in_range :: "lil_matrix \<Rightarrow> int \<times> int \<times> real \<Rightarrow> bool" where
  "in_range A rec \<longleftrightarrow>
     - int (shape0 A) \<le> fst rec - 1 \<and> fst rec - 1 < int (shape0 A) \<and>
     - int (shape1 A) \<le> fst (snd rec) - 1 \<and> fst (snd rec) - 1 < int (shape1 A)"

section \<open>Nonzero entries and index groups\<close>

text \<open>
  \<open>A.nonzero()\<close> zipped into pairs: the positions of the nonzero entries, row by row.
  \<open>A.nnz\<close> is their number; \<open>A.getnnz(axis=0)\<close> counts them per column and
  \<open>A.getnnz(axis=1)\<close> per row.
\<close>

definition nonzero :: "lil_matrix \<Rightarrow> (nat \<times> nat) list" where
  "nonzero A =
     concat (map (\<lambda>i. map (Pair i) (filter (\<lambda>j. entry A i j \<noteq> 0) [0..<shape1 A])) [0..<shape0 A])"

definition nnz :: "lil_matrix \<Rightarrow> nat" where
  "nnz A = length (nonzero A)"

definition getnnz_axis0 :: "lil_matrix \<Rightarrow> nat list" where
  "getnnz_axis0 A =
     map (\<lambda>j. length (filter (\<lambda>i. entry A i j \<noteq> 0) [0..<shape0 A])) [0..<shape1 A]"

definition getnnz_axis1 :: "lil_matrix \<Rightarrow> nat list" where
  "getnnz_axis1 A =
     map (\<lambda>i. length (filter (\<lambda>j. entry A i j \<noteq> 0) [0..<shape1 A])) [0..<shape0 A]"

text \<open>
  \<open>itertools.groupby\<close>: the maximal runs of consecutive elements with one key.
\<close>

function groupby :: "('a \<Rightarrow> 'k) \<Rightarrow> 'a list \<Rightarrow> ('k \<times> 'a list) list" where
  "groupby key [] = []"
| "groupby key (x # xs) =
     (key x, x # takeWhile (\<lambda>y. key y = key x) xs)
       # groupby key (dropWhile (\<lambda>y. key y = key x) xs)"
  by pat_completeness auto
termination
  by (relation "measure (\<lambda>(key, xs). length xs)") (auto simp: less_Suc_eq_le length_dropWhile_le)

text \<open>
  \<^verbatim>\<open>
  def group_by(data, index):
      sorted_data = sorted(data, key=lambda x: x[index])
      groupby_data = groupby(sorted_data, lambda x: x[index])
  \<close>
  \<open>sorted\<close> is stable, as \<open>sort_key\<close> is.
\<close>

definition group_by :: "(nat \<times> nat) list \<Rightarrow> (nat \<times> nat \<Rightarrow> nat) \<Rightarrow> (nat \<times> (nat \<times> nat) list) list" where
  "group_by data index = groupby index (sort_key index data)"

definition build_index_groups ::
  "lil_matrix \<Rightarrow> (nat \<times> nat) list \<times> (nat \<times> nat list) list \<times> (nat \<times> nat list) list" where
  "build_index_groups train =
     (let nz_train = nonzero train;
          nz_row_colindices = map (\<lambda>(g, value). (g, map snd value)) (group_by nz_train fst);
          nz_col_rowindices = map (\<lambda>(g, value). (g, map fst value)) (group_by nz_train snd)
      in (nz_train, nz_row_colindices, nz_col_rowindices))"

text \<open>
  The users who rated a movie (the rows with a nonzero entry in its column, in
  ascending order) and the movies a user rated.
\<close>

definition raters :: "lil_matrix \<Rightarrow> nat \<Rightarrow> nat list" where
  "raters train movie = filter (\<lambda>u. entry train u movie \<noteq> 0) [0..<shape0 train]"

definition rated :: "lil_matrix \<Rightarrow> nat \<Rightarrow> nat list" where
  "rated train user = filter (\<lambda>m. entry train user m \<noteq> 0) [0..<shape1 train]"

section \<open>The factor updates\<close>

text \<open>Dense array operations: \<open>np.zeros\<close>, \<open>eye\<close>, a scalar multiple, a sum of two arrays of
  one shape, \<open>M @ M.T\<close> and \<open>M @ v\<close>.\<close>

definition zeros :: "nat \<Rightarrow> nat \<Rightarrow> ndarray" where
  "zeros m n = \<lparr>dim0 = m, dim1 = n, elem = \<lambda>f c. 0\<rparr>"

definition eye :: "nat \<Rightarrow> ndarray" where
  "eye n = \<lparr>dim0 = n, dim1 = n, elem = \<lambda>f g. if f = g \<and> f < n then 1 else 0\<rparr>"

definition scale :: "real \<Rightarrow> ndarray \<Rightarrow> ndarray" where
  "scale c A = A\<lparr>elem := \<lambda>f g. c * elem A f g\<rparr>"

definition add :: "ndarray \<Rightarrow> ndarray \<Rightarrow> ndarray" where
  "add A B = A\<lparr>elem := \<lambda>f g. elem A f g + elem B f g\<rparr>"

definition matmul_T :: "ndarray \<Rightarrow> ndarray" where
  "matmul_T M =
     \<lparr>dim0 = dim0 M, dim1 = dim0 M, elem = \<lambda>f g. \<Sum>i<dim1 M. elem M f i * elem M g i\<rparr>"

definition matvec :: "ndarray \<Rightarrow> real list \<Rightarrow> error + real list" where
  "matvec M v =
     (if dim1 M = length v
      then Inr (map (\<lambda>f. \<Sum>i<dim1 M. elem M f i * v ! i) [0..<dim0 M])
      else Inl ValueError)"

text \<open>\<open>A[:, idx]\<close> with an index array, and \<open>A[:, c] = z\<close>.\<close>

definition take_columns :: "ndarray \<Rightarrow> nat list \<Rightarrow> error + ndarray" where
  "take_columns A idx =
     (if list_all (\<lambda>c. c < dim1 A) idx
      then Inr \<lparr>dim0 = dim0 A, dim1 = length idx, elem = \<lambda>f i. elem A f (idx ! i)\<rparr>
      else Inl IndexError)"

definition setcol :: "ndarray \<Rightarrow> nat \<Rightarrow> real list \<Rightarrow> error + ndarray" where
  "setcol A c z =
     (if \<not> c < dim1 A then Inl IndexError
      else if length z \<noteq> dim0 A then Inl ValueError
      else Inr (A\<lparr>elem := \<lambda>f c'. if c' = c \<and> f < dim0 A then z ! f else elem A f c'\<rparr>))"

text \<open>
  \<open>train[user, movie]\<close> with an index array \<open>user\<close> and one \<open>movie\<close>, as the vector of the
  selected entries; and \<open>train[user, movie].T\<close> with one \<open>user\<close> and an index array \<open>movie\<close>.
\<close>

definition column_entries :: "lil_matrix \<Rightarrow> nat \<Rightarrow> nat list \<Rightarrow> error + real list" where
  "column_entries train movie user =
     (if movie < shape1 train \<and> list_all (\<lambda>u. u < shape0 train) user
      then Inr (map (\<lambda>u. entry train u movie) user) else Inl IndexError)"

definition row_entries :: "lil_matrix \<Rightarrow> nat \<Rightarrow> nat list \<Rightarrow> error + real list" where
  "row_entries train user movie =
     (if user < shape0 train \<and> list_all (\<lambda>m. m < shape1 train) movie
      then Inr (map (\<lambda>m. entry train user m) movie) else Inl IndexError)"

definition count_at :: "nat list \<Rightarrow> nat \<Rightarrow> error + nat" where
  "count_at counts g = (if g < length counts then Inr (counts ! g) else Inl IndexError)"

text \<open>
  The loop that \<open>update_movie_feature\<close> and \<open>update_user_feature\<close> share, word for word
  but for the names: for each group \<open>(g, idx)\<close>,
  \<^verbatim>\<open>
  M = features[:,idx]
  V = M @ ratings_of(g, idx)
  A = M @ M.T + counts[g] * lambda_I
  Z_star = np.linalg.solve(A,V)
  updated[:,g] = np.copy(Z_star.T)
  \<close>
  \<open>np.linalg.solve\<close> is the parameter \<open>solve\<close>.
\<close>

fun update_loop ::
  "(ndarray \<Rightarrow> real list \<Rightarrow> error + real list) \<Rightarrow> (nat \<Rightarrow> nat list \<Rightarrow> error + real list) \<Rightarrow>
   ndarray \<Rightarrow> ndarray \<Rightarrow> nat list \<Rightarrow> (nat \<times> nat list) list \<Rightarrow> ndarray \<Rightarrow> error + ndarray" where
  "update_loop solve ratings_of features lambda_I counts [] updated = Inr updated"
| "update_loop solve ratings_of features lambda_I counts ((g, idx) # groups) updated =
     (case take_columns features idx of Inl e \<Rightarrow> Inl e | Inr M \<Rightarrow>
     (case ratings_of g idx of Inl e \<Rightarrow> Inl e | Inr r \<Rightarrow>
     (case matvec M r of Inl e \<Rightarrow> Inl e | Inr V \<Rightarrow>
     (case count_at counts g of Inl e \<Rightarrow> Inl e | Inr n \<Rightarrow>
     (case solve (add (matmul_T M) (scale (real n) lambda_I)) V of Inl e \<Rightarrow> Inl e | Inr Z_star \<Rightarrow>
     (case setcol updated g Z_star of Inl e \<Rightarrow> Inl e | Inr updated' \<Rightarrow>
        update_loop solve ratings_of features lambda_I counts groups updated'))))))"

definition update_movie_feature ::
  "(ndarray \<Rightarrow> real list \<Rightarrow> error + real list) \<Rightarrow> lil_matrix \<Rightarrow> ndarray \<Rightarrow> real \<Rightarrow> nat list \<Rightarrow>
   (nat \<times> nat list) list \<Rightarrow> error + ndarray" where
  "update_movie_feature solve train user_features lambda_movie nnz_users_per_movie nz_movie_userindices =
     (let num_movies = length nnz_users_per_movie;
          num_features = dim0 user_features;
          lambda_I = scale lambda_movie (eye num_features);
          updated_movie_features = zeros num_features num_movies
      in update_loop solve (column_entries train) user_features lambda_I nnz_users_per_movie
           nz_movie_userindices updated_movie_features)"

definition update_user_feature ::
  "(ndarray \<Rightarrow> real list \<Rightarrow> error + real list) \<Rightarrow> lil_matrix \<Rightarrow> ndarray \<Rightarrow> real \<Rightarrow> nat list \<Rightarrow>
   (nat \<times> nat list) list \<Rightarrow> error + ndarray" where
  "update_user_feature solve train movie_features lambda_user nnz_movies_per_user nz_user_movieindices =
     (let num_users = length nnz_movies_per_user;
          num_features = dim0 movie_features;
          lambda_I = scale lambda_user (eye num_features);
          updated_user_features = zeros num_features num_users
      in update_loop solve (row_entries train) movie_features lambda_I nnz_movies_per_user
           nz_user_movieindices updated_user_features)"



text \<open>A solver for systems of one equation, to run the updates with one feature.\<close>

definition solve_1x1 :: "ndarray \<Rightarrow> real list \<Rightarrow> error + real list" where
  "solve_1x1 A V =
     (if dim0 A = 1 \<and> dim1 A = 1 \<and> length V = 1 \<and> elem A 0 0 \<noteq> 0
      then Inr [V ! 0 / elem A 0 0] else Inl LinAlgError)"

text \<open>
  A small instance: one user, two movies, and the single rating 1 of movie 0 by the
  user; factor arrays with one feature, every entry \<open>1/2\<close>.
\<close>

definition one_rating :: lil_matrix where
  "one_rating = \<lparr>shape0 = 1, shape1 = 2, entry = \<lambda>i j. if i = 0 \<and> j = 0 then 1 else 0\<rparr>"

definition halves :: "nat \<Rightarrow> ndarray" where
  "halves n = \<lparr>dim0 = 1, dim1 = n, elem = \<lambda>f c. 1 / 2\<rparr>"

section \<open>The random generator and init\_MF\<close>

text \<open>
  The process-wide generator of \<open>np.random\<close>: a sequence of raw draws, arbitrary, and the
  position of the next one. \<open>np.random.rand(m, n)\<close> turns \<open>m * n\<close> draws into floats of
  \<open>[0, 1)\<close>; \<open>np.random.choice(a, size)\<close> turns \<open>size\<close> draws into positions of \<open>a\<close>.
  Every sequence of results that the library can give is the image of some sequence
  of draws.
\<close>

record random_state =
  draws :: "nat \<Rightarrow> nat"
  cursor :: nat

definition rand :: "nat \<Rightarrow> nat \<Rightarrow> random_state \<Rightarrow> ndarray \<times> random_state" where
  "rand m n g =
     (\<lparr>dim0 = m, dim1 = n,
       elem = \<lambda>f c. if f < m \<and> c < n
                then real (draws g (cursor g + f * n + c) mod 2 ^ 53) / 2 ^ 53 else 0\<rparr>,
      g\<lparr>cursor := cursor g + m * n\<rparr>)"

definition choice :: "'a list \<Rightarrow> int \<Rightarrow> random_state \<Rightarrow> error + 'a list \<times> random_state" where
  "choice a n g =
     (if n < 0 then Inl ValueError
      else if a = [] \<and> n \<noteq> 0 then Inl ValueError
      else Inr (map (\<lambda>k. a ! (draws g (cursor g + k) mod length a)) [0..<nat n],
                g\<lparr>cursor := cursor g + nat n\<rparr>))"

definition init_MF :: "lil_matrix \<Rightarrow> nat \<Rightarrow> real \<Rightarrow> random_state \<Rightarrow> ndarray \<times> ndarray \<times> random_state" where
  "init_MF train num_features weight g =
     (let num_user = shape0 train; num_movie = shape1 train;
          (r1, g1) = rand num_features num_movie g;
          movie_features = scale weight r1;
          (r2, g2) = rand num_features num_user g1;
          user_features = scale weight r2
      in (movie_features, user_features, g2))"

section \<open>ALS\<close>

text \<open>
  The body of the \<open>while\<close> loop up to the training error: the movie update from the user
  factors, the user update from the new movie factors, the RMSE of both on the
  nonzero entries of \<open>train\<close>.
\<close>

definition ALS_round ::
  "(ndarray \<Rightarrow> real list \<Rightarrow> error + real list) \<Rightarrow> lil_matrix \<Rightarrow> real \<Rightarrow> real \<Rightarrow> ndarray \<Rightarrow>
   error + ndarray \<times> ndarray \<times> real" where
  "ALS_round solve train lambda_movie lambda_user user_features =
     (let nz_train = nonzero train;
          nnz_users_per_movie = getnnz_axis0 train;
          nnz_movies_per_user = getnnz_axis1 train;
          (_, nz_user_movieindices, nz_movie_userindices) = build_index_groups train
      in
     (case update_movie_feature solve train user_features lambda_movie
             nnz_users_per_movie nz_movie_userindices of
        Inl e \<Rightarrow> Inl e
      | Inr movie_features \<Rightarrow>
     (case update_user_feature solve train movie_features lambda_user
             nnz_movies_per_user nz_user_movieindices of
        Inl e \<Rightarrow> Inl e
      | Inr user_features' \<Rightarrow>
     (case compute_error train movie_features user_features' nz_train of
        Inl e \<Rightarrow> Inl e
      | Inr train_rmse \<Rightarrow> Inr (movie_features, user_features', train_rmse)))))"

text \<open>
  \<^verbatim>\<open>
  while(it < iterations):
      movie_features = ...; user_features = ...; train_rmse = ...
      error_list.append(train_rmse)
      change = np.fabs(error_list[-1] - error_list[-2])
      if (change < stop_criterion):
          break;
      it += 1
  \<close>
  with \<open>stop_criterion = 1e-5\<close>. The loop is given the round as a function of the user
  factors (the movie update reads nothing of the previous movie factors).
\<close>

function ALS_loop ::
  "(ndarray \<Rightarrow> error + ndarray \<times> ndarray \<times> real) \<Rightarrow> int \<Rightarrow> ndarray \<Rightarrow> ndarray \<Rightarrow> real list \<Rightarrow> int \<Rightarrow>
   error + ndarray \<times> ndarray \<times> real list \<times> int" where
  "ALS_loop als_round iterations movie_features user_features error_list it =
     (if it < iterations then
        (case als_round user_features of
           Inl e \<Rightarrow> Inl e
         | Inr (movie_features', user_features', train_rmse) \<Rightarrow>
             let error_list' = error_list @ [train_rmse]; n = length error_list' in
             if n < 2 then Inl IndexError
             else if \<bar>error_list' ! (n - 1) - error_list' ! (n - 2)\<bar> < 1 / 100000
             then Inr (movie_features', user_features', error_list', it)
             else ALS_loop als_round iterations movie_features' user_features' error_list' (it + 1))
      else Inr (movie_features, user_features, error_list, it))"
  by pat_completeness auto
termination
  by (relation "measure (\<lambda>(als_round, iterations, movie_features, user_features, error_list, it).
                    nat (iterations - it))") auto

declare ALS_loop.simps [simp del]

text \<open>
  \<open>ALS\<close> up to its last line, with the whole final state of the loop: the factors, the
  error list (which starts as \<open>[0, 0]\<close>) and the counter.
\<close>

definition ALS_run ::
  "(ndarray \<Rightarrow> real list \<Rightarrow> error + real list) \<Rightarrow> lil_matrix \<Rightarrow> nat \<Rightarrow> real \<Rightarrow> real \<Rightarrow> real \<Rightarrow> int \<Rightarrow>
   random_state \<Rightarrow> error + (ndarray \<times> ndarray \<times> real list \<times> int) \<times> random_state" where
  "ALS_run solve train num_features lambda_movie lambda_user max_weight iterations g =
     (let error_list = [0, 0]; it = 0;
          (movie_features, user_features, g') = init_MF train num_features max_weight g
      in
     (case ALS_loop (ALS_round solve train lambda_movie lambda_user) iterations
             movie_features user_features error_list it of
        Inl e \<Rightarrow> Inl e
      | Inr final \<Rightarrow> Inr (final, g')))"

text \<open>\<open>ALS\<close> returns \<open>user_features, movie_features\<close>; the generator has advanced.\<close>

definition ALS ::
  "(ndarray \<Rightarrow> real list \<Rightarrow> error + real list) \<Rightarrow> lil_matrix \<Rightarrow> nat \<Rightarrow> real \<Rightarrow> real \<Rightarrow> real \<Rightarrow> int \<Rightarrow>
   random_state \<Rightarrow> error + (ndarray \<times> ndarray) \<times> random_state" where
  "ALS solve train num_features lambda_movie lambda_user max_weight iterations g =
     (case ALS_run solve train num_features lambda_movie lambda_user max_weight iterations g of
        Inl e \<Rightarrow> Inl e
      | Inr ((movie_features, user_features, error_list, it), g') \<Rightarrow>
          Inr ((user_features, movie_features), g'))"




section \<open>Splitting the ratings\<close>

text \<open>
  \<open>np.where(counts >= min_num_ratings)[0]\<close>, and \<open>ratings[valid_users, :][:, valid_movies]\<close>:
  the rows and columns picked, renumbered from 0; an index outside the matrix raises
  IndexError.
\<close>

definition where_ge :: "nat list \<Rightarrow> int \<Rightarrow> nat list" where
  "where_ge counts min_num_ratings =
     filter (\<lambda>j. min_num_ratings \<le> int (counts ! j)) [0..<length counts]"

definition submatrix :: "lil_matrix \<Rightarrow> nat list \<Rightarrow> nat list \<Rightarrow> error + lil_matrix" where
  "submatrix ratings valid_users valid_movies =
     (if list_all (\<lambda>u. u < shape0 ratings) valid_users \<and>
         list_all (\<lambda>m. m < shape1 ratings) valid_movies
      then Inr \<lparr>shape0 = length valid_users, shape1 = length valid_movies,
                entry = \<lambda>i j. if i < length valid_users \<and> j < length valid_movies
                          then entry ratings (valid_users ! i) (valid_movies ! j) else 0\<rparr>
      else Inl IndexError)"

text \<open>\<open>int(x)\<close> on a float: truncation towards zero.\<close>

definition py_int :: "real \<Rightarrow> int" where
  "py_int x = (if 0 \<le> x then \<lfloor>x\<rfloor> else \<lceil>x\<rceil>)"

text \<open>
  \<open>set(nz_movies)\<close>, the columns with a nonzero entry, each once; the loop over the set is
  taken in ascending order.
\<close>

definition nonzero_columns :: "lil_matrix \<Rightarrow> nat list" where
  "nonzero_columns A = sort (remdups (map snd (nonzero A)))"

text \<open>
  The assignment \<open>T[idx, movie] = V[idx, movie]\<close> with an index array is an operation of
  the sparse-matrix library and a parameter of the split functions. What it does when
  it returns is \<open>assigns\<close>: the entries of \<open>V\<close> at the rows \<open>idx\<close> of the column are
  copied, nothing else changes. \<open>assign_column\<close> is that operation, raising IndexError
  for an index outside either matrix.
\<close>

definition assigns :: "(lil_matrix \<Rightarrow> nat list \<Rightarrow> nat \<Rightarrow> lil_matrix \<Rightarrow> error + lil_matrix) \<Rightarrow> bool" where
  "assigns assign \<longleftrightarrow>
     (\<forall>T idx movie V T'. assign T idx movie V = Inr T' \<longrightarrow>
        shape0 T' = shape0 T \<and> shape1 T' = shape1 T \<and>
        (\<forall>i j. entry T' i j = (if j = movie \<and> i \<in> set idx then entry V i j else entry T i j)))"

definition assign_column :: "lil_matrix \<Rightarrow> nat list \<Rightarrow> nat \<Rightarrow> lil_matrix \<Rightarrow> error + lil_matrix" where
  "assign_column T idx movie V =
     (if movie < shape1 V \<and> movie < shape1 T \<and>
         list_all (\<lambda>i. i < shape0 V \<and> i < shape0 T) idx
      then Inr (T\<lparr>entry := \<lambda>i j. if j = movie \<and> i \<in> set idx then entry V i j else entry T i j\<rparr>)
      else Inl IndexError)"

text \<open>
  The loop of \<open>split_data\<close> over the movies:
  \<^verbatim>\<open>
  row, col = valid_ratings[:, movie].nonzero()
  selects = np.random.choice(row, size=int(len(row) * p_test))
  residual = list(set(row) - set(selects))
  train[residual, movie] = valid_ratings[residual, movie]
  if(p_test > 0):
      test[selects, movie] = valid_ratings[selects, movie]
  \<close>
\<close>

fun split_loop ::
  "(lil_matrix \<Rightarrow> nat list \<Rightarrow> nat \<Rightarrow> lil_matrix \<Rightarrow> error + lil_matrix) \<Rightarrow> lil_matrix \<Rightarrow> real \<Rightarrow>
   nat list \<Rightarrow> lil_matrix \<Rightarrow> lil_matrix \<Rightarrow> random_state \<Rightarrow>
   error + lil_matrix \<times> lil_matrix \<times> random_state" where
  "split_loop assign valid_ratings p_test [] train test g = Inr (train, test, g)"
| "split_loop assign valid_ratings p_test (movie # movies) train test g =
     (let row = raters valid_ratings movie in
     (case choice row (py_int (real (length row) * p_test)) g of
        Inl e \<Rightarrow> Inl e
      | Inr (selects, g') \<Rightarrow>
     (let residual = filter (\<lambda>u. u \<notin> set selects) row in
     (case assign train residual movie valid_ratings of
        Inl e \<Rightarrow> Inl e
      | Inr train' \<Rightarrow>
        if p_test > 0 then
          (case assign test selects movie valid_ratings of
             Inl e \<Rightarrow> Inl e
           | Inr test' \<Rightarrow> split_loop assign valid_ratings p_test movies train' test' g')
        else split_loop assign valid_ratings p_test movies train' test g'))))"

definition split_data ::
  "(lil_matrix \<Rightarrow> nat list \<Rightarrow> nat \<Rightarrow> lil_matrix \<Rightarrow> error + lil_matrix) \<Rightarrow> lil_matrix \<Rightarrow>
   nat list \<Rightarrow> nat list \<Rightarrow> int \<Rightarrow> real \<Rightarrow> random_state \<Rightarrow>
   error + lil_matrix \<times> lil_matrix \<times> lil_matrix \<times> random_state" where
  "split_data assign ratings num_users_per_movie num_movies_per_user min_num_ratings p_test g =
     (let valid_movies = where_ge num_users_per_movie min_num_ratings;
          valid_users = where_ge num_movies_per_user min_num_ratings in
     (case submatrix ratings valid_users valid_movies of
        Inl e \<Rightarrow> Inl e
      | Inr valid_ratings \<Rightarrow>
     (let num_rows = shape0 valid_ratings; num_cols = shape1 valid_ratings;
          train = \<lparr>shape0 = num_rows, shape1 = num_cols, entry = \<lambda>i j. 0\<rparr>;
          test = \<lparr>shape0 = num_rows, shape1 = num_cols, entry = \<lambda>i j. 0\<rparr> in
     (case split_loop assign valid_ratings p_test (nonzero_columns valid_ratings) train test g of
        Inl e \<Rightarrow> Inl e
      | Inr (train', test', g') \<Rightarrow> Inr (valid_ratings, train', test', g')))))"

text \<open>
  \<open>split_for_cv\<close>: \<open>k_fold\<close> times the same loop over the movies of \<open>train\<close>, without
  the test \<open>p_test > 0\<close>, each time into two fresh matrices.
\<close>

fun cv_split_loop ::
  "(lil_matrix \<Rightarrow> nat list \<Rightarrow> nat \<Rightarrow> lil_matrix \<Rightarrow> error + lil_matrix) \<Rightarrow> lil_matrix \<Rightarrow> real \<Rightarrow>
   nat list \<Rightarrow> lil_matrix \<Rightarrow> lil_matrix \<Rightarrow> random_state \<Rightarrow>
   error + lil_matrix \<times> lil_matrix \<times> random_state" where
  "cv_split_loop assign train p_test [] train_tr test_tr g = Inr (train_tr, test_tr, g)"
| "cv_split_loop assign train p_test (movie # movies) train_tr test_tr g =
     (let row = raters train movie in
     (case choice row (py_int (real (length row) * p_test)) g of
        Inl e \<Rightarrow> Inl e
      | Inr (selects, g') \<Rightarrow>
     (let residual = filter (\<lambda>u. u \<notin> set selects) row in
     (case assign train_tr residual movie train of
        Inl e \<Rightarrow> Inl e
      | Inr train_tr' \<Rightarrow>
     (case assign test_tr selects movie train of
        Inl e \<Rightarrow> Inl e
      | Inr test_tr' \<Rightarrow> cv_split_loop assign train p_test movies train_tr' test_tr' g')))))"

fun split_folds ::
  "(lil_matrix \<Rightarrow> nat list \<Rightarrow> nat \<Rightarrow> lil_matrix \<Rightarrow> error + lil_matrix) \<Rightarrow> lil_matrix \<Rightarrow> real \<Rightarrow>
   nat \<Rightarrow> lil_matrix list \<Rightarrow> lil_matrix list \<Rightarrow> random_state \<Rightarrow>
   error + lil_matrix list \<times> lil_matrix list \<times> random_state" where
  "split_folds assign train p_test 0 train_tr_list test_tr_list g =
     Inr (train_tr_list, test_tr_list, g)"
| "split_folds assign train p_test (Suc k) train_tr_list test_tr_list g =
     (let train_tr = \<lparr>shape0 = shape0 train, shape1 = shape1 train, entry = \<lambda>i j. 0\<rparr>;
          test_tr = \<lparr>shape0 = shape0 train, shape1 = shape1 train, entry = \<lambda>i j. 0\<rparr> in
     (case cv_split_loop assign train p_test (nonzero_columns train) train_tr test_tr g of
        Inl e \<Rightarrow> Inl e
      | Inr (train_tr', test_tr', g') \<Rightarrow>
          split_folds assign train p_test k (train_tr_list @ [train_tr']) (test_tr_list @ [test_tr']) g'))"

definition split_for_cv ::
  "(lil_matrix \<Rightarrow> nat list \<Rightarrow> nat \<Rightarrow> lil_matrix \<Rightarrow> error + lil_matrix) \<Rightarrow> lil_matrix \<Rightarrow> real \<Rightarrow>
   nat \<Rightarrow> random_state \<Rightarrow> error + lil_matrix list \<times> lil_matrix list \<times> random_state" where
  "split_for_cv assign train p_test k_fold g = split_folds assign train p_test k_fold [] [] g"

section \<open>cv\_ALS\_random\_search\<close>

text \<open>\<open>np.linspace(start, stop, num)\<close>, and the four ranges of the search.\<close>

definition linspace :: "real \<Rightarrow> real \<Rightarrow> nat \<Rightarrow> real list" where
  "linspace start stop num =
     map (\<lambda>i. start + real i * ((stop - start) / real (num - 1))) [0..<num]"

definition movies_range :: "real list" where
  "movies_range = linspace (1 / 100) 1 100"

definition user_range :: "real list" where
  "user_range = linspace (1 / 100) 1 100"

definition features_num_range :: "nat list" where
  "features_num_range = map (\<lambda>x. nat \<lfloor>x\<rfloor>) (linspace 1 60 60)"

definition weight_range :: "real list" where
  "weight_range = linspace 1 3 60"

text \<open>
  The 60 candidates \<open>(num_features, weight, lambda_movie, lambda_user)\<close>: four calls of
  \<open>np.random.choice(range, 60)\<close>, in the order of the source, zipped.
\<close>

definition sample_candidates ::
  "random_state \<Rightarrow> error + (nat \<times> real \<times> real \<times> real) list \<times> random_state" where
  "sample_candidates g =
     (case choice movies_range 60 g of Inl e \<Rightarrow> Inl e | Inr (lambda_movies, g1) \<Rightarrow>
     (case choice user_range 60 g1 of Inl e \<Rightarrow> Inl e | Inr (lambda_users, g2) \<Rightarrow>
     (case choice features_num_range 60 g2 of Inl e \<Rightarrow> Inl e | Inr (nb_features, g3) \<Rightarrow>
     (case choice weight_range 60 g3 of Inl e \<Rightarrow> Inl e | Inr (weights, g4) \<Rightarrow>
        Inr (zip nb_features (zip weights (zip lambda_movies lambda_users)), g4)))))"

text \<open>
  The local variables of the search. \<open>best_lambda_user\<close> is initialised and never
  assigned again; \<open>bset_lambda_user\<close> is the name that the improving branch assigns,
  that the last \<open>print\<close> reads and that is returned: it is unbound (\<open>None\<close>) until a
  candidate improves the RMSE.
\<close>

record search_state =
  best_weight :: real
  best_lambda_user :: real
  best_lambda_movie :: real
  best_num_feature :: int
  best_rmse :: real
  bset_lambda_user :: "real option"

definition initial_state :: search_state where
  "initial_state = \<lparr>best_weight = - 1, best_lambda_user = - 1, best_lambda_movie = - 1,
     best_num_feature = - 1, best_rmse = 100, bset_lambda_user = None\<rparr>"

text \<open>
  The body of the inner loop, for one fold:
  \<^verbatim>\<open>
  user_features,movie_features = ALS(train_tr,num_features,lambda_movie,lambda_user,weight)
  nz_row, nz_col = test_tr.nonzero()
  nz_test = list(zip(nz_row, nz_col))
  test_tr_rmse = compute_error(test_tr, movie_features, user_features, nz_test)
  \<close>
\<close>

definition evaluate_fold ::
  "(ndarray \<Rightarrow> real list \<Rightarrow> error + real list) \<Rightarrow> lil_matrix \<Rightarrow> lil_matrix \<Rightarrow>
   nat \<times> real \<times> real \<times> real \<Rightarrow> random_state \<Rightarrow> error + real \<times> random_state" where
  "evaluate_fold solve train_tr test_tr c g =
     (case c of (num_features, weight, lambda_movie, lambda_user) \<Rightarrow>
     (case ALS solve train_tr num_features lambda_movie lambda_user weight 50 g of
        Inl e \<Rightarrow> Inl e
      | Inr ((user_features, movie_features), g') \<Rightarrow>
     (case compute_error test_tr movie_features user_features (nonzero test_tr) of
        Inl e \<Rightarrow> Inl e
      | Inr test_tr_rmse \<Rightarrow> Inr (test_tr_rmse, g'))))"

text \<open>
  The two loops, over the folds and over the candidates, with the evaluation of one
  fold as a parameter. An exception of an evaluation leaves both loops: the source has
  no \<open>try\<close>.
\<close>

fun cv_folds ::
  "(lil_matrix \<Rightarrow> lil_matrix \<Rightarrow> nat \<times> real \<times> real \<times> real \<Rightarrow> random_state \<Rightarrow> error + real \<times> random_state) \<Rightarrow>
   (lil_matrix \<times> lil_matrix) list \<Rightarrow> nat \<times> real \<times> real \<times> real \<Rightarrow> real list \<Rightarrow> random_state \<Rightarrow>
   error + real list \<times> random_state" where
  "cv_folds evaluate [] c rmse_list g = Inr (rmse_list, g)"
| "cv_folds evaluate ((train_tr, test_tr) # folds) c rmse_list g =
     (case evaluate train_tr test_tr c g of
        Inl e \<Rightarrow> Inl e
      | Inr (test_tr_rmse, g') \<Rightarrow> cv_folds evaluate folds c (rmse_list @ [test_tr_rmse]) g')"

text \<open>\<open>np.mean\<close> of a list, and the branch that saves the best parameters.\<close>

definition mean :: "real list \<Rightarrow> real" where
  "mean xs = sum_list xs / real (length xs)"

definition save_best :: "search_state \<Rightarrow> nat \<times> real \<times> real \<times> real \<Rightarrow> real \<Rightarrow> search_state" where
  "save_best st c test_rmse =
     (case c of (num_features, weight, lambda_movie, lambda_user) \<Rightarrow>
        if test_rmse < best_rmse st
        then st\<lparr>best_rmse := test_rmse, bset_lambda_user := Some lambda_user,
                best_lambda_movie := lambda_movie, best_weight := weight,
                best_num_feature := int num_features\<rparr>
        else st)"

fun cv_candidates ::
  "(lil_matrix \<Rightarrow> lil_matrix \<Rightarrow> nat \<times> real \<times> real \<times> real \<Rightarrow> random_state \<Rightarrow> error + real \<times> random_state) \<Rightarrow>
   (lil_matrix \<times> lil_matrix) list \<Rightarrow> (nat \<times> real \<times> real \<times> real) list \<Rightarrow> search_state \<Rightarrow>
   random_state \<Rightarrow> error + search_state \<times> random_state" where
  "cv_candidates evaluate folds [] st g = Inr (st, g)"
| "cv_candidates evaluate folds (c # cs) st g =
     (case cv_folds evaluate folds c [] g of
        Inl e \<Rightarrow> Inl e
      | Inr (rmse_list, g') \<Rightarrow>
          cv_candidates evaluate folds cs (save_best st c (mean rmse_list)) g')"

text \<open>
  After the loops the source prints and returns \<open>bset_lambda_user\<close>; reading it while
  it is unbound raises UnboundLocalError.
\<close>

definition final_result ::
  "search_state \<times> random_state \<Rightarrow> error + (int \<times> real \<times> real \<times> real) \<times> random_state" where
  "final_result r =
     (case r of (st, g) \<Rightarrow>
       (case bset_lambda_user st of
          None \<Rightarrow> Inl UnboundLocalError
        | Some lambda_user \<Rightarrow>
            Inr ((best_num_feature st, best_weight st, best_lambda_movie st, lambda_user), g)))"

text \<open>
  The search with the evaluation of a fold, the index assignment of the library and the
  outcome of \<open>os.makedirs('./data')\<close> (\<open>None\<close> when the directory exists or is made, the
  exception otherwise) as parameters: the candidates are drawn, the directory is made,
  \<open>split_for_cv(train, p_test=0.2)\<close> is called (\<open>k_fold\<close> is 5 by default), the loops run.
\<close>

definition cv_search ::
  "(lil_matrix \<Rightarrow> lil_matrix \<Rightarrow> nat \<times> real \<times> real \<times> real \<Rightarrow> random_state \<Rightarrow> error + real \<times> random_state) \<Rightarrow>
   error option \<Rightarrow> (lil_matrix \<Rightarrow> nat list \<Rightarrow> nat \<Rightarrow> lil_matrix \<Rightarrow> error + lil_matrix) \<Rightarrow>
   lil_matrix \<Rightarrow> random_state \<Rightarrow> error + (int \<times> real \<times> real \<times> real) \<times> random_state" where
  "cv_search evaluate makedirs assign train g =
     (case sample_candidates g of Inl e \<Rightarrow> Inl e | Inr (candidates, g1) \<Rightarrow>
     (case makedirs of Some e \<Rightarrow> Inl e | None \<Rightarrow>
     (case split_for_cv assign train (1 / 5) 5 g1 of
        Inl e \<Rightarrow> Inl e
      | Inr (train_tr_list, test_tr_list, g2) \<Rightarrow>
     (case cv_candidates evaluate (zip train_tr_list test_tr_list) candidates initial_state g2 of
        Inl e \<Rightarrow> Inl e
      | Inr r \<Rightarrow> final_result r))))"

definition cv_ALS_random_search ::
  "(ndarray \<Rightarrow> real list \<Rightarrow> error + real list) \<Rightarrow> error option \<Rightarrow>
   (lil_matrix \<Rightarrow> nat list \<Rightarrow> nat \<Rightarrow> lil_matrix \<Rightarrow> error + lil_matrix) \<Rightarrow>
   lil_matrix \<Rightarrow> random_state \<Rightarrow> error + (int \<times> real \<times> real \<times> real) \<times> random_state" where
  "cv_ALS_random_search solve makedirs assign train g =
     cv_search (evaluate_fold solve) makedirs assign train g"

section \<open>Properties of compute\_error\<close>

lemma sum_list_map2_upt:
  "sum_list (map2 (*) (map g [0..<n]) (map h [0..<n])) = (\<Sum>f<n. g f * h f :: real)"
proof -
  have "map2 (*) (map g [0..<n]) (map h [0..<n]) = map (\<lambda>f. g f * h f) [0..<n]"
    by (simp add: zip_map_map map_zip_map zip_same_conv_map)
  then show ?thesis
    by (simp add: interv_sum_list_conv_sum_set_nat atLeast0LessThan)
qed

lemma mse_loop_sum:
  assumes "pairs_ok data mf uf nz" and "dim0 mf = dim0 uf"
  shows "mse_loop data mf uf nz mse = Inr (mse + (\<Sum>p\<leftarrow>nz. sq_residual data mf uf p))"
  using assms
proof (induction nz arbitrary: mse)
  case Nil
  then show ?case by simp
next
  case (Cons p nz)
  obtain row col where p: "p = (row, col)" by (cases p)
  from Cons.prems have ok: "row < shape0 data" "col < shape1 data" "col < dim1 mf" "row < dim1 uf"
    and rest: "pairs_ok data mf uf nz"
    by (simp_all add: pairs_ok_def p)
  have d: "dot (map (\<lambda>f. elem mf f col) [0..<dim0 mf]) (map (\<lambda>f. elem uf f row) [0..<dim0 uf])
             = Inr (\<Sum>f<dim0 mf. elem mf f col * elem uf f row)"
    using Cons.prems(2) by (simp add: dot_def sum_list_map2_upt)
  show ?case
    using ok d Cons.IH [OF rest Cons.prems(2)]
    by (simp add: p getcol_def getitem_def sq_residual_def add.assoc)
qed

text \<open>
  C7. \<open>compute_error\<close> divides the accumulated squared error by \<open>len(nz)\<close>: on the
  empty pair list it raises ZeroDivisionError; on a non-empty list of pairs that index
  the matrix and the factor arrays (of one feature dimension) it returns the square
  root of the mean, over exactly the supplied pairs, of
  \<open>(data[row,col] - movie_features[:,col] . user_features[:,row])\<^sup>2\<close>.
\<close>

theorem compute_error_rmse:
  "compute_error data movie_features user_features [] = Inl ZeroDivisionError \<and>
   (nz \<noteq> [] \<and> pairs_ok data movie_features user_features nz \<and>
    dim0 movie_features = dim0 user_features \<longrightarrow>
    compute_error data movie_features user_features nz =
      Inr (sqrt ((\<Sum>p\<leftarrow>nz. sq_residual data movie_features user_features p) / real (length nz))))"
  by (simp add: compute_error_def mse_loop_sum)

theorem compute_error_rmse_witness:
  "compute_error \<lparr>shape0 = 1, shape1 = 1, entry = \<lambda>i j. 3\<rparr>
     \<lparr>dim0 = 1, dim1 = 1, elem = \<lambda>f c. 1\<rparr> \<lparr>dim0 = 1, dim1 = 1, elem = \<lambda>f c. 2\<rparr> [] = Inl ZeroDivisionError \<and>
   compute_error \<lparr>shape0 = 1, shape1 = 1, entry = \<lambda>i j. 3\<rparr>
     \<lparr>dim0 = 1, dim1 = 1, elem = \<lambda>f c. 1\<rparr> \<lparr>dim0 = 1, dim1 = 1, elem = \<lambda>f c. 2\<rparr> [(0, 0)] = Inr 1"
  using compute_error_rmse [of "\<lparr>shape0 = 1, shape1 = 1, entry = \<lambda>i j. 3\<rparr>"
      "\<lparr>dim0 = 1, dim1 = 1, elem = \<lambda>f c. 1\<rparr>" "\<lparr>dim0 = 1, dim1 = 1, elem = \<lambda>f c. 2\<rparr>" "[(0, 0)]"]
  by (simp add: pairs_ok_def sq_residual_def)

section \<open>Properties of preprocess\_data\<close>

lemma setitem_cases:
  "setitem A i j x =
     (if \<not> (fits_intp (int (shape0 A)) \<and> fits_intp (int (shape1 A)) \<and> fits_intp i \<and> fits_intp j)
      then Inl OverflowError
      else if i < - int (shape0 A) \<or> int (shape0 A) \<le> i \<or> j < - int (shape1 A) \<or> int (shape1 A) \<le> j
      then Inl IndexError
      else Inr (A\<lparr>entry := (entry A)(from_end (int (shape0 A)) i :=
                   (entry A (from_end (int (shape0 A)) i))(from_end (int (shape1 A)) j := x))\<rparr>))"
  by (simp add: setitem_def Let_def from_end_def)

lemma find_snoc:
  "find P (xs @ [x]) = (case find P xs of None \<Rightarrow> (if P x then Some x else None) | Some y \<Rightarrow> Some y)"
  by (induction xs) auto

lemma in_range_shape:
  "shape0 B = shape0 A \<Longrightarrow> shape1 B = shape1 A \<Longrightarrow> in_range B = in_range A"
  by (rule ext) (simp add: in_range_def)

lemma insert_ratings_ok:
  assumes "fits_intp (int (shape0 A))" "fits_intp (int (shape1 A))"
    and "list_all (in_range A) data"
  shows "\<exists>B. insert_ratings A data = Inr B \<and> shape0 B = shape0 A \<and> shape1 B = shape1 A \<and>
           (\<forall>i j. entry B i j =
              (case find (addresses (int (shape0 A)) (int (shape1 A)) i j) (rev data) of
                 None \<Rightarrow> entry A i j | Some rec \<Rightarrow> snd (snd rec)))"
  using assms
proof (induction data arbitrary: A)
  case Nil
  then show ?case by simp
next
  case (Cons rec data)
  obtain row col rating where rec: "rec = (row, col, rating)" by (cases rec)
  let ?M = "int (shape0 A)" and ?N = "int (shape1 A)"
  let ?A' = "A\<lparr>entry := (entry A)(from_end ?M (row - 1) :=
                   (entry A (from_end ?M (row - 1)))(from_end ?N (col - 1) := rating))\<rparr>"
  from Cons.prems have r: "in_range A rec" and rest: "list_all (in_range A) data" by simp_all
  from r Cons.prems(1,2) have fit: "fits_intp (row - 1)" "fits_intp (col - 1)"
    by (auto simp: in_range_def rec fits_intp_def)
  have step: "setitem A (row - 1) (col - 1) rating = Inr ?A'"
    using r fit Cons.prems(1,2) by (simp add: setitem_cases in_range_def rec)
  have rest': "list_all (in_range ?A') data"
    using rest by (simp add: in_range_shape [of ?A' A])
  from Cons.IH [of ?A'] Cons.prems(1,2) rest'
  obtain B where B: "insert_ratings ?A' data = Inr B" "shape0 B = shape0 A" "shape1 B = shape1 A"
    "\<And>i j. entry B i j =
        (case find (addresses ?M ?N i j) (rev data) of None \<Rightarrow> entry ?A' i j | Some rec \<Rightarrow> snd (snd rec))"
    by auto
  have "entry B i j =
          (case find (addresses ?M ?N i j) (rev (rec # data)) of
             None \<Rightarrow> entry A i j | Some rec \<Rightarrow> snd (snd rec))" for i j
    unfolding B(4) by (auto simp: find_snoc addresses_def rec split: option.splits)
  with B(1-3) step show ?case
    by (simp add: rec)
qed

lemma insert_ratings_fails:
  assumes "\<not> list_all (in_range A) data"
  shows "\<exists>e. insert_ratings A data = Inl e"
  using assms
proof (induction data arbitrary: A)
  case Nil
  then show ?case by simp
next
  case (Cons rec data)
  obtain row col rating where rec: "rec = (row, col, rating)" by (cases rec)
  show ?case
  proof (cases "setitem A (row - 1) (col - 1) rating")
    case (Inl e)
    then show ?thesis by (simp add: rec)
  next
    case (Inr A')
    then have sh: "shape0 A' = shape0 A" "shape1 A' = shape1 A" and r: "in_range A rec"
      by (auto simp: setitem_cases in_range_def rec split: if_splits)
    with Cons.prems have "\<not> list_all (in_range A') data"
      by (simp add: in_range_shape [of A' A])
    from Cons.IH [OF this] Inr show ?thesis by (simp add: rec)
  qed
qed

lemma insert_ratings_IndexError:
  assumes "fits_intp (int (shape0 A))" "fits_intp (int (shape1 A))"
    and "list_all (\<lambda>rec. fits_intp (fst rec - 1) \<and> fits_intp (fst (snd rec) - 1)) data"
    and "\<not> list_all (in_range A) data"
  shows "insert_ratings A data = Inl IndexError"
  using assms
proof (induction data arbitrary: A)
  case Nil
  then show ?case by simp
next
  case (Cons rec data)
  obtain row col rating where rec: "rec = (row, col, rating)" by (cases rec)
  from Cons.prems(3) have fit: "fits_intp (row - 1)" "fits_intp (col - 1)"
    and fits: "list_all (\<lambda>rec. fits_intp (fst rec - 1) \<and> fits_intp (fst (snd rec) - 1)) data"
    by (simp_all add: rec)
  show ?case
  proof (cases "in_range A rec")
    case False
    then show ?thesis
      using fit Cons.prems(1,2) by (auto simp: setitem_cases in_range_def rec)
  next
    case True
    let ?A' = "A\<lparr>entry := (entry A)(from_end (int (shape0 A)) (row - 1) :=
                   (entry A (from_end (int (shape0 A)) (row - 1)))(from_end (int (shape1 A)) (col - 1) := rating))\<rparr>"
    have step: "setitem A (row - 1) (col - 1) rating = Inr ?A'"
      using True fit Cons.prems(1,2) by (simp add: setitem_cases in_range_def rec)
    from True Cons.prems(4) have "\<not> list_all (in_range ?A') data"
      by (simp add: in_range_shape [of ?A' A])
    from Cons.IH [of ?A', OF _ _ fits this] Cons.prems(1,2) step show ?thesis
      by (simp add: rec)
  qed
qed

text \<open>
  C9 (as the code has it). \<open>preprocess_data\<close> checks no index for positivity; what it
  refuses is an index outside the matrix of shape \<open>(max_row, max_col)\<close>. For the records
  \<open>data\<close> parsed from the lines:
  \<^item> whenever some record has a row index below \<open>1 - max_row\<close> or a column index below
    \<open>1 - max_col\<close>, \<open>preprocess_data\<close> raises and returns no matrix;
  \<^item> the exception is the range error IndexError when the matrix itself can be built on
    the machine and the indices fit the machine index type;
  \<^item> when every record is at or above the bound (a non-positive index included) and the
    matrix can be built, the matrix of shape \<open>(max_row, max_col)\<close> is returned, and each
    cell holds the rating of the last record that addresses it, a negative
    \<open>row - 1\<close> or \<open>col - 1\<close> counting from the end of the matrix.
\<close>

theorem preprocess_data_range:
  assumes "parse_lines deal_line lines = Inr data"
  shows
    "((\<exists>rec\<in>set data. \<not> index_accepted data rec) \<longrightarrow>
        (\<exists>e. preprocess_data alloc_rows deal_line lines = Inl e)) \<and>
     ((\<exists>rec\<in>set data. \<not> index_accepted data rec) \<and> shape_allocated alloc_rows data \<and>
      (\<forall>rec\<in>set data. fits_intp (fst rec - 1) \<and> fits_intp (fst (snd rec) - 1)) \<longrightarrow>
        preprocess_data alloc_rows deal_line lines = Inl IndexError) \<and>
     (data \<noteq> [] \<and> (\<forall>rec\<in>set data. index_accepted data rec) \<and> shape_allocated alloc_rows data \<longrightarrow>
        (\<exists>ratings. preprocess_data alloc_rows deal_line lines = Inr ratings \<and>
           int (shape0 ratings) = Max (set (map fst data)) \<and>
           int (shape1 ratings) = Max (set (map (fst \<circ> snd) data)) \<and>
           (\<forall>i j. entry ratings i j =
              last_rating (Max (set (map fst data))) (Max (set (map (fst \<circ> snd) data))) data i j)))"
proof -
  define M where "M = Max (set (map fst data))"
  define N where "N = Max (set (map (fst \<circ> snd) data))"
  let ?Z = "\<lparr>shape0 = nat M, shape1 = nat N, entry = \<lambda>i j. 0\<rparr>"
  have acc: "\<And>rec. index_accepted data rec \<longleftrightarrow> 1 - M \<le> fst rec \<and> 1 - N \<le> fst (snd rec)"
    by (simp add: index_accepted_def M_def N_def)
  have alloc: "shape_allocated alloc_rows data \<longleftrightarrow>
      0 \<le> M \<and> 8 * M \<le> intp_max \<and> M \<le> int alloc_rows \<and> 0 \<le> N \<and> N \<le> intp_max"
    by (simp add: shape_allocated_def M_def N_def)
  have le: "\<And>rec. rec \<in> set data \<Longrightarrow> fst rec \<le> M \<and> fst (snd rec) \<le> N"
    unfolding M_def N_def by (auto intro!: Max_ge)
  have stat: "data \<noteq> [] \<Longrightarrow>
      statistics data = Inr (Min (set (map fst data)), M, Min (set (map (fst \<circ> snd) data)), N)"
    by (simp add: statistics_def M_def N_def Let_def)
  have pre: "data \<noteq> [] \<Longrightarrow> preprocess_data alloc_rows deal_line lines =
      (case new_lil_matrix alloc_rows M N of Inl e \<Rightarrow> Inl e | Inr ratings \<Rightarrow> insert_ratings ratings data)"
    using assms stat by (simp add: preprocess_data_def)
  have rng: "0 \<le> M \<Longrightarrow> 0 \<le> N \<Longrightarrow> rec \<in> set data \<Longrightarrow>
      in_range ?Z rec \<longleftrightarrow> index_accepted data rec" for rec
    using le [of rec] by (auto simp: in_range_def acc)
  have all_rng: "0 \<le> M \<Longrightarrow> 0 \<le> N \<Longrightarrow>
      list_all (in_range ?Z) data \<longleftrightarrow> (\<forall>rec\<in>set data. index_accepted data rec)"
    using rng by (auto simp: list_all_iff)
  have new: "shape_allocated alloc_rows data \<Longrightarrow> new_lil_matrix alloc_rows M N = Inr ?Z"
    by (auto simp: alloc new_lil_matrix_def)
  have fitsZ: "shape_allocated alloc_rows data \<Longrightarrow>
      fits_intp (int (shape0 ?Z)) \<and> fits_intp (int (shape1 ?Z))"
    by (auto simp: alloc fits_intp_def intp_max_def)
  have p1: "\<exists>e. preprocess_data alloc_rows deal_line lines = Inl e"
    if bad: "\<exists>rec\<in>set data. \<not> index_accepted data rec"
  proof -
    from bad have ne: "data \<noteq> []" by auto
    show ?thesis
    proof (cases "new_lil_matrix alloc_rows M N")
      case (Inl e)
      with pre [OF ne] show ?thesis by simp
    next
      case (Inr ratings)
      then have Z: "ratings = ?Z" and nonneg: "0 \<le> M" "0 \<le> N"
        by (auto simp: new_lil_matrix_def split: if_splits)
      from bad all_rng [OF nonneg] have "\<not> list_all (in_range ?Z) data" by simp
      from insert_ratings_fails [OF this] pre [OF ne] Inr Z show ?thesis by simp
    qed
  qed
  have p2: "preprocess_data alloc_rows deal_line lines = Inl IndexError"
    if bad: "\<exists>rec\<in>set data. \<not> index_accepted data rec"
      and al: "shape_allocated alloc_rows data"
      and fit: "\<forall>rec\<in>set data. fits_intp (fst rec - 1) \<and> fits_intp (fst (snd rec) - 1)"
  proof -
    from bad have ne: "data \<noteq> []" by auto
    from al have nonneg: "0 \<le> M" "0 \<le> N" by (simp_all add: alloc)
    from bad all_rng [OF nonneg] have nr: "\<not> list_all (in_range ?Z) data" by simp
    from fit have fl: "list_all (\<lambda>rec. fits_intp (fst rec - 1) \<and> fits_intp (fst (snd rec) - 1)) data"
      by (simp add: list_all_iff)
    from fitsZ [OF al] have "insert_ratings ?Z data = Inl IndexError"
      by (intro insert_ratings_IndexError [OF _ _ fl nr]) simp_all
    with pre [OF ne] new [OF al] show ?thesis by simp
  qed
  have p3: "\<exists>ratings. preprocess_data alloc_rows deal_line lines = Inr ratings \<and>
           int (shape0 ratings) = M \<and> int (shape1 ratings) = N \<and>
           (\<forall>i j. entry ratings i j = last_rating M N data i j)"
    if ne: "data \<noteq> []" and good: "\<forall>rec\<in>set data. index_accepted data rec"
      and al: "shape_allocated alloc_rows data"
  proof -
    from al have nonneg: "0 \<le> M" "0 \<le> N" by (simp_all add: alloc)
    from good all_rng [OF nonneg] have ar: "list_all (in_range ?Z) data" by simp
    from fitsZ [OF al] have f: "fits_intp (int (shape0 ?Z))" "fits_intp (int (shape1 ?Z))"
      by blast+
    from insert_ratings_ok [OF f ar]
    obtain B where B: "insert_ratings ?Z data = Inr B \<and> shape0 B = shape0 ?Z \<and> shape1 B = shape1 ?Z \<and>
           (\<forall>i j. entry B i j =
              (case find (addresses (int (shape0 ?Z)) (int (shape1 ?Z)) i j) (rev data) of
                 None \<Rightarrow> entry ?Z i j | Some rec \<Rightarrow> snd (snd rec)))"
      by blast
    have "preprocess_data alloc_rows deal_line lines = Inr B"
      using B pre [OF ne] new [OF al] by simp
    moreover have "int (shape0 B) = M" "int (shape1 B) = N"
      using B nonneg by simp_all
    moreover have "entry B i j = last_rating M N data i j" for i j
      using B nonneg by (simp add: last_rating_def split: option.splits)
    ultimately show ?thesis by blast
  qed
  from p1 p2 p3 show ?thesis
    unfolding M_def N_def by blast
qed

theorem preprocess_data_range_witness:
  "parse_lines Inr [(2, 1, 4), (0, 2, 3 :: real)] = Inr [(2, 1, 4), (0, 2, 3)] \<and>
   (\<exists>ratings. preprocess_data 10 Inr [(2, 1, 4), (0, 2, 3 :: real)] = Inr ratings \<and>
      shape0 ratings = 2 \<and> shape1 ratings = 2 \<and> entry ratings 1 1 = 3 \<and> entry ratings 1 0 = 4 \<and>
      entry ratings 0 0 = 0) \<and>
   parse_lines Inr [(2, 1, 4), (-2, 1, 3 :: real)] = Inr [(2, 1, 4), (-2, 1, 3)] \<and>
   preprocess_data 10 Inr [(2, 1, 4), (-2, 1, 3 :: real)] = Inl IndexError"
proof -
  have p: "parse_lines Inr [(2, 1, 4), (0, 2, 3 :: real)] = Inr [(2 :: int, 1 :: int, 4), (0, 2, 3)]"
    by simp
  have q: "parse_lines Inr [(2, 1, 4), (-2, 1, 3 :: real)] = Inr [(2 :: int, 1 :: int, 4), (-2, 1, 3)]"
    by simp
  show ?thesis
    using p q preprocess_data_range [OF p, of 10] preprocess_data_range [OF q, of 10]
    by (auto simp: index_accepted_def shape_allocated_def intp_max_def fits_intp_def
        last_rating_def addresses_def from_end_def)
qed

text \<open>
  The records \<open>(2, 1, 4)\<close> and \<open>(0, 2, 3)\<close>: the row index 0 raises nothing, the rating 3
  lands in the last row of the 2 by 2 matrix that is returned.
\<close>

theorem preprocess_data_nonpositive_counterexample:
  "map_sum id (\<lambda>A. (shape0 A, shape1 A, entry A 1 0, entry A 1 1))
     (preprocess_data 10 Inr [(2, 1, 4), (0, 2, 3)]) = Inr (2, 2, 4, 3)"
  by (simp add: preprocess_data_def statistics_def new_lil_matrix_def setitem_def Let_def
      intp_max_def fits_intp_def)

section \<open>Properties of the index groups\<close>

lemma dropWhile_key_gt:
  fixes key :: "'a \<Rightarrow> 'k :: linorder"
  assumes "sorted (map key xs)" and "\<forall>z\<in>set xs. k \<le> key z"
    and "y \<in> set (dropWhile (\<lambda>y. key y = k) xs)"
  shows "k < key y"
  using assms
proof (induction xs)
  case Nil
  then show ?case by simp
next
  case (Cons a xs)
  show ?case
  proof (cases "key a = k")
    case True
    with Cons.prems have "sorted (map key xs)" "\<forall>z\<in>set xs. k \<le> key z"
      "y \<in> set (dropWhile (\<lambda>y. key y = k) xs)"
      by simp_all
    then show ?thesis by (rule Cons.IH)
  next
    case False
    with Cons.prems(3) have y: "y = a \<or> y \<in> set xs" by simp
    from Cons.prems(2) False have ka: "k < key a" by (simp add: order_less_le)
    from Cons.prems(1) have "\<forall>z\<in>set xs. key a \<le> key z" by simp
    with y have "key a \<le> key y" by blast
    with ka show ?thesis by (rule less_le_trans)
  qed
qed

lemma dropWhile_sorted_gt:
  fixes key :: "'a \<Rightarrow> 'k :: linorder"
  assumes "sorted (map key (x # xs))" and "y \<in> set (dropWhile (\<lambda>y. key y = key x) xs)"
  shows "key x < key y"
proof -
  from assms(1) have s: "sorted (map key xs)" and l: "\<forall>z\<in>set xs. key x \<le> key z"
    by simp_all
  show ?thesis
    by (rule dropWhile_key_gt [where key = key and k = "key x" and xs = xs, OF s l assms(2)])
qed

lemma takeWhile_sorted_filter:
  fixes key :: "'a \<Rightarrow> 'k :: linorder"
  assumes "sorted (map key (x # xs))"
  shows "takeWhile (\<lambda>y. key y = key x) xs = filter (\<lambda>y. key y = key x) xs"
proof -
  define P where "P = (\<lambda>y. key y = key x)"
  have d: "filter P (dropWhile P xs) = []"
  proof -
    have "\<not> P y" if "y \<in> set (dropWhile P xs)" for y
    proof -
      from that have "key x < key y"
        unfolding P_def by (rule dropWhile_sorted_gt [OF assms])
      then show ?thesis by (simp add: P_def)
    qed
    then show ?thesis by (simp add: filter_empty_conv)
  qed
  have t: "filter P (takeWhile P xs) = takeWhile P xs"
    by (induction xs) simp_all
  have "filter P xs = filter P (takeWhile P xs @ dropWhile P xs)"
    by simp
  also have "\<dots> = filter P (takeWhile P xs) @ filter P (dropWhile P xs)"
    by (rule filter_append)
  also have "\<dots> = takeWhile P xs"
    by (simp only: d t append_Nil2)
  finally show ?thesis by (simp add: P_def)
qed

lemma sorted_map_dropWhile:
  "sorted (map key xs) \<Longrightarrow> sorted (map key (dropWhile P xs))"
  by (induction xs) auto

lemma groupby_sorted:
  fixes key :: "'a \<Rightarrow> 'k :: linorder"
  assumes "sorted (map key xs)"
  shows "distinct (map fst (groupby key xs)) \<and>
         (\<forall>(k, g) \<in> set (groupby key xs). g = filter (\<lambda>y. key y = k) xs \<and> g \<noteq> [])"
  using assms
proof (induction key xs rule: groupby.induct)
  case (1 key)
  then show ?case by simp
next
  case (2 key x xs)
  define P where "P = (\<lambda>y. key y = key x)"
  define d where "d = dropWhile P xs"
  define t where "t = takeWhile P xs"
  have xs: "xs = t @ d" by (simp add: t_def d_def)
  have sd: "sorted (map key d)"
    using "2.prems" sorted_map_dropWhile [of key xs P] by (simp add: d_def)
  have IH: "distinct (map fst (groupby key d))"
    "\<And>k g. (k, g) \<in> set (groupby key d) \<Longrightarrow> g = filter (\<lambda>y. key y = k) d \<and> g \<noteq> []"
    using "2.IH" [OF sd [unfolded d_def P_def]] by (auto simp: d_def P_def)
  have gt: "key x < key y" if "y \<in> set d" for y
    using that dropWhile_sorted_gt [OF "2.prems", of y] by (simp add: d_def P_def)
  have tk: "key y = key x" if "y \<in> set t" for y
    using that set_takeWhileD [of y P xs] by (simp add: t_def P_def)
  have tf: "t = filter (\<lambda>y. key y = key x) xs"
    using takeWhile_sorted_filter [OF "2.prems"] by (simp add: t_def P_def)
  have later: "key x < k \<and> g = filter (\<lambda>y. key y = k) (x # xs) \<and> g \<noteq> []"
    if kg: "(k, g) \<in> set (groupby key d)" for k g
  proof -
    from IH(2) [OF kg] have g: "g = filter (\<lambda>y. key y = k) d" "g \<noteq> []" by auto
    then obtain y where y: "y \<in> set d" "key y = k"
      by (auto simp: filter_empty_conv)
    with gt have lt: "key x < k" by auto
    have "filter (\<lambda>y. key y = k) t = []"
      using lt tk by (auto simp: filter_empty_conv)
    then have "filter (\<lambda>y. key y = k) xs = filter (\<lambda>y. key y = k) d"
      by (simp add: xs)
    with g lt show ?thesis by auto
  qed
  have notin: "key x \<notin> fst ` set (groupby key d)"
  proof
    assume "key x \<in> fst ` set (groupby key d)"
    then obtain g where "(key x, g) \<in> set (groupby key d)" by auto
    from later [OF this] show False by simp
  qed
  have eq: "groupby key (x # xs) = (key x, x # t) # groupby key d"
    by (simp add: t_def d_def P_def)
  show ?case
    unfolding eq using IH(1) notin later tf by auto
qed


lemma groupby_keys: "fst ` set (groupby key xs) = key ` set xs"
proof (induction key xs rule: groupby.induct)
  case (1 key)
  then show ?case by simp
next
  case (2 key x xs)
  define P where "P = (\<lambda>y. key y = key x)"
  define d where "d = dropWhile P xs"
  define t where "t = takeWhile P xs"
  have xs: "set xs = set t \<union> set d"
    using set_append [of t d] by (simp add: t_def d_def)
  have tk: "key y = key x" if "y \<in> set t" for y
    using that set_takeWhileD [of y P xs] by (simp add: t_def P_def)
  have IH: "fst ` set (groupby key d) = key ` set d"
    using "2.IH" by (simp add: d_def P_def)
  have eq: "groupby key (x # xs) = (key x, x # t) # groupby key d"
    by (simp add: t_def d_def P_def)
  have "key ` set (x # xs) = insert (key x) (key ` set d)"
    using tk by (auto simp: xs)
  then show ?case
    unfolding eq by (simp add: IH)
qed

lemma groupby_sorted_mem:
  fixes key :: "'a \<Rightarrow> 'k :: linorder"
  assumes "sorted (map key xs)" and "(k, g) \<in> set (groupby key xs)"
  shows "g = filter (\<lambda>y. key y = k) xs \<and> g \<noteq> []"
proof -
  from groupby_sorted [OF assms(1)]
  have "\<forall>p\<in>set (groupby key xs). case p of (k, g) \<Rightarrow> g = filter (\<lambda>y. key y = k) xs \<and> g \<noteq> []"
    by (rule conjunct2)
  from bspec [OF this assms(2)] show ?thesis
    unfolding prod.case .
qed

lemma group_by_groups:
  fixes index :: "nat \<times> nat \<Rightarrow> nat"
  shows "distinct (map fst (group_by data index))"
    and "(k, g) \<in> set (group_by data index) \<Longrightarrow> g = filter (\<lambda>y. index y = k) data \<and> g \<noteq> []"
    and "fst ` set (group_by data index) = index ` set data"
proof -
  have s: "sorted (map index (sort_key index data))"
    by (rule sorted_sort_key)
  from groupby_sorted [OF s] show "distinct (map fst (group_by data index))"
    by (simp add: group_by_def)
  show "g = filter (\<lambda>y. index y = k) data \<and> g \<noteq> []"
    if "(k, g) \<in> set (group_by data index)"
  proof -
    from that have "(k, g) \<in> set (groupby index (sort_key index data))"
      by (simp only: group_by_def)
    from groupby_sorted_mem [OF s this] show ?thesis
      unfolding sort_key_stable .
  qed
  show "fst ` set (group_by data index) = index ` set data"
    by (simp only: group_by_def groupby_keys set_sort)
qed

lemma set_nonzero:
  "set (nonzero A) = {(i, j). i < shape0 A \<and> j < shape1 A \<and> entry A i j \<noteq> 0}"
  by (auto simp: nonzero_def)

lemma row_pairs_col:
  assumes "distinct js"
  shows "map fst (filter (\<lambda>p. snd p = m) (map (Pair i) (filter (\<lambda>j. entry A i j \<noteq> 0) js)))
        = (if m \<in> set js \<and> entry A i m \<noteq> 0 then [i] else [])"
  using assms by (induction js) auto

lemma nonzero_col_filter:
  "map fst (filter (\<lambda>p. snd p = m) (nonzero A)) = (if m < shape1 A then raters A m else [])"
proof -
  have "map fst (filter (\<lambda>p. snd p = m)
        (concat (map (\<lambda>i. map (Pair i) (filter (\<lambda>j. entry A i j \<noteq> 0) [0..<shape1 A])) us)))
      = (if m < shape1 A then filter (\<lambda>u. entry A u m \<noteq> 0) us else [])" for us
    by (induction us) (simp_all add: row_pairs_col)
  then show ?thesis
    by (simp add: nonzero_def raters_def)
qed

lemma row_pairs_row:
  "map snd (filter (\<lambda>p. fst p = u) (map (Pair i) xs)) = (if i = u then xs else [])"
  by (induction xs) auto

lemma nonzero_row_filter:
  "map snd (filter (\<lambda>p. fst p = u) (nonzero A)) = (if u < shape0 A then rated A u else [])"
proof -
  have "distinct us \<Longrightarrow> map snd (filter (\<lambda>p. fst p = u)
        (concat (map (\<lambda>i. map (Pair i) (filter (\<lambda>j. entry A i j \<noteq> 0) [0..<shape1 A])) us)))
      = (if u \<in> set us then filter (\<lambda>j. entry A u j \<noteq> 0) [0..<shape1 A] else [])" for us
    by (induction us) (auto simp: row_pairs_row)
  from this [of "[0..<shape0 A]"] show ?thesis
    by (simp add: nonzero_def rated_def)
qed

lemma nz_col_rowindices:
  shows "distinct (map fst (snd (snd (build_index_groups train))))"
    and "(m, user) \<in> set (snd (snd (build_index_groups train))) \<Longrightarrow>
           m < shape1 train \<and> user = raters train m \<and> user \<noteq> []"
    and "fst ` set (snd (snd (build_index_groups train))) = {m. m < shape1 train \<and> raters train m \<noteq> []}"
proof -
  define G where "G = group_by (nonzero train) snd"
  have eq: "snd (snd (build_index_groups train)) = map (\<lambda>(g, value). (g, map fst value)) G"
    by (simp add: build_index_groups_def Let_def G_def)
  have keys: "map fst (map (\<lambda>(g, value). (g, map fst value)) G) = map fst G"
    by (induction G) auto
  have dG: "distinct (map fst G)"
    unfolding G_def by (rule group_by_groups(1))
  show "distinct (map fst (snd (snd (build_index_groups train))))"
    unfolding eq keys by (rule dG)
  have mem: "k < shape1 train \<and> map fst g = raters train k \<and> map fst g \<noteq> []"
    if kg: "(k, g) \<in> set G" for k g
  proof -
    from group_by_groups(2) [OF kg [unfolded G_def]]
    have g: "g = filter (\<lambda>y. snd y = k) (nonzero train)" and ne: "g \<noteq> []" by blast+
    have "map fst g = (if k < shape1 train then raters train k else [])"
      unfolding g by (rule nonzero_col_filter)
    with ne show ?thesis
      by (cases "k < shape1 train") auto
  qed
  show "m < shape1 train \<and> user = raters train m \<and> user \<noteq> []"
    if "(m, user) \<in> set (snd (snd (build_index_groups train)))"
  proof -
    from that obtain g where "(m, g) \<in> set G" "user = map fst g"
      unfolding eq by auto
    with mem [of m g] show ?thesis by auto
  qed
  have "fst ` set (snd (snd (build_index_groups train))) =
          set (map fst (map (\<lambda>(g, value). (g, map fst value)) G))"
    unfolding eq by (simp only: set_map)
  also have "\<dots> = set (map fst G)"
    by (simp only: keys)
  also have "\<dots> = snd ` set (nonzero train)"
    using group_by_groups(3) [of "nonzero train" snd] by (simp add: G_def)
  also have "\<dots> = {m. m < shape1 train \<and> raters train m \<noteq> []}"
    by (force simp: set_nonzero raters_def filter_empty_conv)
  finally show "fst ` set (snd (snd (build_index_groups train))) = {m. m < shape1 train \<and> raters train m \<noteq> []}" .
qed

lemma nz_row_colindices:
  shows "distinct (map fst (fst (snd (build_index_groups train))))"
    and "(u, movie) \<in> set (fst (snd (build_index_groups train))) \<Longrightarrow>
           u < shape0 train \<and> movie = rated train u \<and> movie \<noteq> []"
    and "fst ` set (fst (snd (build_index_groups train))) = {u. u < shape0 train \<and> rated train u \<noteq> []}"
proof -
  define G where "G = group_by (nonzero train) fst"
  have eq: "fst (snd (build_index_groups train)) = map (\<lambda>(g, value). (g, map snd value)) G"
    by (simp add: build_index_groups_def Let_def G_def)
  have keys: "map fst (map (\<lambda>(g, value). (g, map snd value)) G) = map fst G"
    by (induction G) auto
  have dG: "distinct (map fst G)"
    unfolding G_def by (rule group_by_groups(1))
  show "distinct (map fst (fst (snd (build_index_groups train))))"
    unfolding eq keys by (rule dG)
  have mem: "k < shape0 train \<and> map snd g = rated train k \<and> map snd g \<noteq> []"
    if kg: "(k, g) \<in> set G" for k g
  proof -
    from group_by_groups(2) [OF kg [unfolded G_def]]
    have g: "g = filter (\<lambda>y. fst y = k) (nonzero train)" and ne: "g \<noteq> []" by blast+
    have "map snd g = (if k < shape0 train then rated train k else [])"
      unfolding g by (rule nonzero_row_filter)
    with ne show ?thesis
      by (cases "k < shape0 train") auto
  qed
  show "u < shape0 train \<and> movie = rated train u \<and> movie \<noteq> []"
    if "(u, movie) \<in> set (fst (snd (build_index_groups train)))"
  proof -
    from that obtain g where "(u, g) \<in> set G" "movie = map snd g"
      unfolding eq by auto
    with mem [of u g] show ?thesis by auto
  qed
  have "fst ` set (fst (snd (build_index_groups train))) =
          set (map fst (map (\<lambda>(g, value). (g, map snd value)) G))"
    unfolding eq by (simp only: set_map)
  also have "\<dots> = set (map fst G)"
    by (simp only: keys)
  also have "\<dots> = fst ` set (nonzero train)"
    using group_by_groups(3) [of "nonzero train" fst] by (simp add: G_def)
  also have "\<dots> = {u. u < shape0 train \<and> rated train u \<noteq> []}"
    by (force simp: set_nonzero rated_def filter_empty_conv)
  finally show "fst ` set (fst (snd (build_index_groups train))) = {u. u < shape0 train \<and> rated train u \<noteq> []}" .
qed


section \<open>Properties of the factor updates\<close>



lemma setcol_result:
  assumes "setcol A c z = Inr B"
  shows "c < dim1 A" and "length z = dim0 A" and "dim0 B = dim0 A" and "dim1 B = dim1 A"
    and "\<And>f c'. elem B f c' = (if c' = c \<and> f < dim0 A then z ! f else elem A f c')"
  using assms by (auto simp: setcol_def split: if_splits)

lemma update_loop_Cons:
  assumes "update_loop solve ratings_of features lambda_I counts ((g, idx) # groups) updated = Inr updated'"
  obtains M r V n Z updated1 where
    "take_columns features idx = Inr M" "ratings_of g idx = Inr r" "matvec M r = Inr V"
    "count_at counts g = Inr n"
    "solve (add (matmul_T M) (scale (real n) lambda_I)) V = Inr Z"
    "setcol updated g Z = Inr updated1"
    "update_loop solve ratings_of features lambda_I counts groups updated1 = Inr updated'"
  using assms by (auto split: sum.splits)

lemma update_loop_frame:
  assumes "update_loop solve ratings_of features lambda_I counts groups updated = Inr updated'"
  shows "dim0 updated' = dim0 updated \<and> dim1 updated' = dim1 updated \<and>
         (\<forall>f c. c \<notin> fst ` set groups \<longrightarrow> elem updated' f c = elem updated f c)"
  using assms
proof (induction groups arbitrary: updated)
  case Nil
  then show ?case by simp
next
  case (Cons p groups)
  obtain g idx where p: "p = (g, idx)" by (cases p)
  from Cons.prems [unfolded p] obtain Z updated1 where
    s: "setcol updated g Z = Inr updated1" and
    l: "update_loop solve ratings_of features lambda_I counts groups updated1 = Inr updated'"
    by (rule update_loop_Cons)
  from Cons.IH [OF l] setcol_result [OF s] show ?case
    by (simp add: p)
qed






lemma one_rating_simps:
  "shape0 one_rating = 1" "shape1 one_rating = 2"
  "entry one_rating i j = (if i = 0 \<and> j = 0 then 1 else 0)"
  by (simp_all add: one_rating_def)

lemma one_rating_groups:
  "nonzero one_rating = [(0, 0)]"
  "build_index_groups one_rating = ([(0, 0)], [(0, [0])], [(0, [0])])"
  "getnnz_axis0 one_rating = [1, 0]"
  "getnnz_axis1 one_rating = [1]"
  "raters one_rating 0 = [0]" "raters one_rating 1 = []" "rated one_rating 0 = [0]"
proof -
  show nz: "nonzero one_rating = [(0, 0)]"
    by (simp add: nonzero_def one_rating_simps numeral_2_eq_2)
  show "build_index_groups one_rating = ([(0, 0)], [(0, [0])], [(0, [0])])"
    by (simp add: build_index_groups_def nz group_by_def)
  show "getnnz_axis0 one_rating = [1, 0]"
    by (simp add: getnnz_axis0_def one_rating_simps numeral_2_eq_2)
  show "getnnz_axis1 one_rating = [1]"
    by (simp add: getnnz_axis1_def one_rating_simps numeral_2_eq_2)
  show "raters one_rating 0 = [0]" "raters one_rating 1 = []" "rated one_rating 0 = [0]"
    by (simp_all add: raters_def rated_def one_rating_simps numeral_2_eq_2)
qed

lemma update_movie_one_rating:
  "map_sum id (\<lambda>mf. (dim0 mf, dim1 mf, elem mf 0 0, elem mf 0 1))
     (update_movie_feature solve_1x1 one_rating (halves 1) 1 (getnnz_axis0 one_rating)
        (snd (snd (build_index_groups one_rating)))) = Inr (1, 2, 2 / 5, 0)"
  by (simp add: one_rating_groups update_movie_feature_def Let_def halves_def take_columns_def
      column_entries_def one_rating_simps matvec_def count_at_def solve_1x1_def add_def matmul_T_def
      scale_def eye_def setcol_def zeros_def)


section \<open>Properties of ALS\<close>
















section \<open>The claims about the factor updates\<close>



text \<open>
  C2 (as the code has it). \<open>update_movie_feature\<close> never sees the previous movie
  factors: it fills a fresh array of zeros, of the shape (features, movies of \<open>train\<close>),
  and writes the columns of the movies with at least one rating. After the step every
  movie without a rating has an all-zero factor column.
\<close>

theorem update_movie_feature_unrated_zero:
  assumes run: "update_movie_feature solve train user_features lambda_movie (getnnz_axis0 train)
                (snd (snd (build_index_groups train))) = Inr movie_features'"
  shows "dim0 movie_features' = dim0 user_features \<and> dim1 movie_features' = shape1 train \<and>
         (\<forall>m. raters train m = [] \<longrightarrow> (\<forall>f. elem movie_features' f m = 0))"
proof -
  let ?G = "snd (snd (build_index_groups train))"
  from run have run': "update_loop solve (column_entries train) user_features
      (scale lambda_movie (eye (dim0 user_features))) (getnnz_axis0 train) ?G
      (zeros (dim0 user_features) (length (getnnz_axis0 train))) = Inr movie_features'"
    by (simp add: update_movie_feature_def Let_def)
  note fr = update_loop_frame [OF run']
  have "m \<notin> fst ` set ?G" if "raters train m = []" for m
    using that by (simp add: nz_col_rowindices(3))
  with fr show ?thesis
    by (simp add: zeros_def getnnz_axis0_def)
qed


theorem update_movie_feature_unrated_zero_witness:
  "raters one_rating 1 = [] \<and>
   (\<exists>mf'. update_movie_feature solve_1x1 one_rating (halves 1) 1 (getnnz_axis0 one_rating)
            (snd (snd (build_index_groups one_rating))) = Inr mf' \<and>
          dim0 mf' = 1 \<and> dim1 mf' = 2 \<and> elem mf' 0 1 = 0)"
proof -
  obtain mf' where mf: "update_movie_feature solve_1x1 one_rating (halves 1) 1 (getnnz_axis0 one_rating)
            (snd (snd (build_index_groups one_rating))) = Inr mf'"
    using update_movie_one_rating
    by (cases "update_movie_feature solve_1x1 one_rating (halves 1) 1 (getnnz_axis0 one_rating)
            (snd (snd (build_index_groups one_rating)))") auto
  have "raters one_rating 1 = []"
    by (rule one_rating_groups)
  with update_movie_feature_unrated_zero [OF mf] mf show ?thesis
    by (auto simp: halves_def one_rating_simps)
qed

text \<open>
  One user, two movies, the user rated movie 0 only. \<open>init_MF\<close> draws the factor
  \<open>1/2\<close> for movie 1; \<open>ALS\<close> makes one round (it converges at once) and returns
  the factor 0 for movie 1, not \<open>1/2\<close>.
\<close>

theorem ALS_unrated_movie_counterexample:
  "map_sum id (\<lambda>((uf, mf), g). (elem (fst (init_MF one_rating 1 1 \<lparr>draws = \<lambda>k. 2 ^ 52, cursor = 0\<rparr>)) 0 1,
                                 elem mf 0 0, elem mf 0 1, elem uf 0 0))
     (ALS solve_1x1 one_rating 1 0 0 1 1 \<lparr>draws = \<lambda>k. 2 ^ 52, cursor = 0\<rparr>) = Inr (1 / 2, 2, 0, 1 / 2)"
  by (simp add: ALS_def ALS_run_def init_MF_def rand_def ALS_loop.simps ALS_round_def
      one_rating_groups update_movie_feature_def update_user_feature_def Let_def take_columns_def
      column_entries_def row_entries_def one_rating_simps matvec_def count_at_def solve_1x1_def add_def
      matmul_T_def scale_def eye_def setcol_def zeros_def compute_error_def getcol_def getitem_def
      dot_def)

section \<open>The claim about the ALS loop\<close>





end
